theory Spec2Isabelle
  imports Main
begin

section \<open>Splice-junction extraction (junctions\_extractor.cc)\<close>

text \<open>
  A shallow embedding of \<^verbatim>\<open>src/junctions/junctions_extractor.cc\<close>: the quality check of a
  junction, the merge-or-insert into the junction map, the walk over one alignment's CIGAR
  operations, and the command-line parsing of the tool. The member variables of the class
  \<^verbatim>\<open>JunctionsExtractor\<close> are the fields of a record that every method takes and returns
  (the trailing underscore of a member name is dropped: \<^verbatim>\<open>bam_\<close> is \<open>bam\<close>).
\<close>

subsection \<open>Data\<close>

text \<open>
  Modelled from the spec: the struct \<^verbatim>\<open>Junction\<close> and the members of the class are declared
  in \<^verbatim>\<open>junctions_extractor.h\<close>, which is not among the sources. The fields are the ones the
  code reads and writes; positions, lengths and counts are integers as the spec's data model
  has them (unbounded here), and \<open>strand\<close> is a \<^verbatim>\<open>std::string\<close>, as the assignment
  \<^verbatim>\<open>j1.strand = string(1, strand)\<close> shows.
\<close>

record Junction =
  chrom :: string
  start :: int
  "end" :: int
  thick_start :: int
  thick_end :: int
  strand :: string
  name :: string
  score :: string
  read_count :: int
  has_left_min_anchor :: bool
  has_right_min_anchor :: bool

text \<open>
  Modelled from the spec: the default constructor of \<^verbatim>\<open>Junction\<close> (declared in the missing
  header). A fresh junction has no support and no anchor flag set: the flags are
  "true once some supporting read's anchor on that side has met the minimum anchor length".
\<close>

definition new_Junction :: Junction where
  "new_Junction =
     \<lparr>chrom = [], start = 0, end = 0, thick_start = 0, thick_end = 0, strand = [],
      name = ''NA'', score = [], read_count = 0,
      has_left_min_anchor = False, has_right_min_anchor = False\<rparr>"

text \<open>
  The object: the three thresholds, the file names and the region, and the map
  \<^verbatim>\<open>junctions_\<close> (a \<^verbatim>\<open>std::map<string, Junction>\<close>) from key strings to junctions.
\<close>

record JunctionsExtractor =
  min_anchor_length :: int
  min_intron_length :: int
  max_intron_length :: int
  bam :: string
  output_file :: string
  region :: string
  junctions :: "string \<rightharpoonup> Junction"

subsection \<open>Decimal rendering of integers\<close>

text \<open>
  What \<^verbatim>\<open>stream << n\<close> writes for an integer \<open>n\<close>: its decimal digits, most significant
  first, after a minus sign when it is negative.
\<close>

definition digit_char :: "nat \<Rightarrow> char" where
  "digit_char d = ''0123456789'' ! d"

fun dec_nat :: "nat \<Rightarrow> string" where
  "dec_nat n =
     (if n < 10 then [digit_char n] else dec_nat (n div 10) @ [digit_char (n mod 10)])"

declare dec_nat.simps [simp del]

definition show_int :: "int \<Rightarrow> string" where
  "show_int i = (if i < 0 then CHR ''-'' # dec_nat (nat (- i)) else dec_nat (nat i))"

text \<open>
  Modelled from the spec: \<^verbatim>\<open>common::num_to_str\<close> is defined in \<^verbatim>\<open>common.h\<close>, which is
  not among the sources; the score is the "textual rendering of read\_count".
\<close>

definition num_to_str :: "int \<Rightarrow> string" where
  "num_to_str n = show_int n"

text \<open>\<^verbatim>\<open>setfill(c)\<close> and \<^verbatim>\<open>setw(w)\<close> before a value: padded on the left up to width \<open>w\<close>.\<close>

definition setw_fill :: "nat \<Rightarrow> char \<Rightarrow> string \<Rightarrow> string" where
  "setw_fill w c s = replicate (w - length s) c @ s"

subsection \<open>Naming, quality check and the junction map\<close>

definition get_new_junction_name :: "JunctionsExtractor \<Rightarrow> string" where
  "get_new_junction_name ex =
     (let index = int (card (dom (junctions ex))) + 1
      in ''JUNC'' @ setw_fill 8 (CHR ''0'') (show_int index))"

text \<open>
  \<^verbatim>\<open>junction_qc\<close> takes the junction by reference: the model returns the verdict and the
  junction as the call leaves it.
\<close>

definition junction_qc :: "JunctionsExtractor \<Rightarrow> Junction \<Rightarrow> bool \<times> Junction" where
  "junction_qc ex j1 =
     (if end j1 - start j1 < min_intron_length ex \<or>
         end j1 - start j1 > max_intron_length ex
      then (False, j1)
      else
        let j1 = (if start j1 - thick_start j1 \<ge> min_anchor_length ex
                  then j1\<lparr>has_left_min_anchor := True\<rparr> else j1);
            j1 = (if thick_end j1 - end j1 \<ge> min_anchor_length ex
                  then j1\<lparr>has_right_min_anchor := True\<rparr> else j1)
        in (True, j1))"

text \<open>
  The key of \<^verbatim>\<open>add_junction\<close> (lines 134 to 139). The string stream \<^verbatim>\<open>s1\<close> is not
  emptied between the two insertions, so the string \<^verbatim>\<open>end\<close> is the rendering of the start
  followed by the rendering of the end.
\<close>

definition junction_key :: "Junction \<Rightarrow> string" where
  "junction_key j1 =
     (let start_s = show_int (start j1);
          end_s = start_s @ show_int (end j1)
      in chrom j1 @ '':'' @ start_s @ ''-'' @ end_s @ '':'' @ strand j1)"

text \<open>
  \<^verbatim>\<open>add_junction\<close> takes its junction by value and returns 0 on every path; the map of the
  object is the only state it changes.
\<close>

definition add_junction :: "Junction \<Rightarrow> JunctionsExtractor \<Rightarrow> int \<times> JunctionsExtractor" where
  "add_junction j ex =
     (case junction_qc ex j of
        (False, j1) \<Rightarrow> (0, ex)
      | (True, j1) \<Rightarrow>
          let key = junction_key j1;
              j1 = (case junctions ex key of
                      None \<Rightarrow>
                        let j1 = j1\<lparr>name := get_new_junction_name ex\<rparr>;
                            j1 = j1\<lparr>read_count := 1\<rparr>
                        in j1\<lparr>score := num_to_str (read_count j1)\<rparr>
                    | Some j0 \<Rightarrow>
                        let j1 = j1\<lparr>read_count := read_count j0 + 1\<rparr>;
                            j1 = j1\<lparr>score := num_to_str (read_count j1)\<rparr>;
                            j1 = j1\<lparr>name := name j0\<rparr>;
                            j1 = (if thick_start j0 < thick_start j1
                                  then j1\<lparr>thick_start := thick_start j0\<rparr> else j1);
                            j1 = (if thick_end j0 > thick_end j1
                                  then j1\<lparr>thick_end := thick_end j0\<rparr> else j1);
                            j1 = j1\<lparr>has_left_min_anchor :=
                                      has_left_min_anchor j1 \<or> has_left_min_anchor j0\<rparr>
                        in j1\<lparr>has_right_min_anchor :=
                                has_right_min_anchor j1 \<or> has_right_min_anchor j0\<rparr>)
          in (0, ex\<lparr>junctions := (junctions ex)(key \<mapsto> j1)\<rparr>))"

subsection \<open>The walk over one alignment\<close>

text \<open>
  What the walk reads of an alignment record and its header: the name of the reference
  sequence (\<^verbatim>\<open>header->target_name[aln->core.tid]\<close>), the leftmost position, the CIGAR
  operations as pairs of \<^verbatim>\<open>bam_cigar_opchr\<close> and \<^verbatim>\<open>bam_cigar_oplen\<close>, and the character
  of the \<^verbatim>\<open>XS\<close> tag when the record has one (\<^verbatim>\<open>bam_aux2A\<close> gives the character 0 for a tag
  that holds no character).
\<close>

record alignment =
  target_name :: string
  pos :: int
  cigar :: "(char \<times> int) list"
  aux_XS :: "char option"

definition set_junction_strand :: "alignment \<Rightarrow> Junction \<Rightarrow> Junction" where
  "set_junction_strand aln j1 =
     (case aux_XS aln of
        Some strand' \<Rightarrow>
          (if strand' \<noteq> CHR 0x00 then j1\<lparr>strand := [strand']\<rparr>
           else j1\<lparr>strand := [CHR ''?'']\<rparr>)
      | None \<Rightarrow> j1\<lparr>strand := [CHR ''?'']\<rparr>)"

text \<open>
  One turn of the loop over the operations: the \<^verbatim>\<open>switch\<close> on the operation character. The
  state is the junction under construction, the flag \<^verbatim>\<open>started_junction\<close> and the object.
  No call of the model raises, so the \<^verbatim>\<open>catch\<close> clauses around \<^verbatim>\<open>add_junction\<close> have no
  branch; the message written for an unknown operation is not modelled.
\<close>

definition cigar_step ::
  "char \<Rightarrow> int \<Rightarrow> Junction \<times> bool \<times> JunctionsExtractor \<Rightarrow> Junction \<times> bool \<times> JunctionsExtractor"
where
  "cigar_step op len st =
     (case st of (j1, started_junction, ex) \<Rightarrow>
        if op = CHR ''N'' then
          (if \<not> started_junction then
             let j1 = j1\<lparr>end := start j1 + len\<rparr>;
                 j1 = j1\<lparr>thick_end := end j1\<rparr>
             in (j1, True, ex)
           else
             let ex = snd (add_junction j1 ex);
                 j1 = j1\<lparr>thick_start := end j1\<rparr>;
                 j1 = j1\<lparr>start := thick_end j1\<rparr>;
                 j1 = j1\<lparr>end := start j1 + len\<rparr>;
                 j1 = j1\<lparr>thick_end := end j1\<rparr>
             in (j1, True, ex))
        else if op = CHR ''='' \<or> op = CHR ''M'' then
          (if \<not> started_junction then (j1\<lparr>start := start j1 + len\<rparr>, started_junction, ex)
           else (j1\<lparr>thick_end := thick_end j1 + len\<rparr>, started_junction, ex))
        else if op = CHR ''D'' \<or> op = CHR ''X'' then
          (if \<not> started_junction then
             let j1 = j1\<lparr>start := start j1 + len\<rparr>;
                 j1 = j1\<lparr>thick_start := start j1\<rparr>
             in (j1, False, ex)
           else
             let ex = snd (add_junction j1 ex);
                 j1 = j1\<lparr>start := thick_end j1 + len\<rparr>;
                 j1 = j1\<lparr>thick_start := start j1\<rparr>
             in (j1, False, ex))
        else if op = CHR ''I'' \<or> op = CHR ''S'' then
          (if \<not> started_junction then (j1\<lparr>thick_start := start j1\<rparr>, False, ex)
           else
             let ex = snd (add_junction j1 ex);
                 j1 = j1\<lparr>start := thick_end j1\<rparr>;
                 j1 = j1\<lparr>thick_start := start j1\<rparr>
             in (j1, False, ex))
        else if op = CHR ''H'' then (j1, started_junction, ex)
        else (j1, started_junction, ex))"

fun cigar_loop ::
  "(char \<times> int) list \<Rightarrow> Junction \<times> bool \<times> JunctionsExtractor \<Rightarrow> Junction \<times> bool \<times> JunctionsExtractor"
where
  "cigar_loop [] st = st"
| "cigar_loop ((op, len) # rest) st = cigar_loop rest (cigar_step op len st)"

definition parse_alignment_into_junctions ::
  "alignment \<Rightarrow> JunctionsExtractor \<Rightarrow> int \<times> JunctionsExtractor"
where
  "parse_alignment_into_junctions aln ex =
     (let n_cigar = int (length (cigar aln)) in
      if n_cigar \<le> 1 then (0, ex)
      else
        let j1 = new_Junction;
            j1 = j1\<lparr>chrom := target_name aln\<rparr>;
            j1 = j1\<lparr>start := pos aln\<rparr>;
            j1 = j1\<lparr>thick_start := pos aln\<rparr>;
            j1 = set_junction_strand aln j1
        in (case cigar_loop (cigar aln) (j1, False, ex) of
              (j1, started_junction, ex) \<Rightarrow>
                if started_junction then (0, snd (add_junction j1 ex)) else (0, ex)))"

text \<open>
  A run of calls of \<^verbatim>\<open>add_junction\<close> on one object, in the order of the list: what the walk
  over one or more alignments does to the map.
\<close>

fun add_junction_seq :: "Junction list \<Rightarrow> JunctionsExtractor \<Rightarrow> JunctionsExtractor" where
  "add_junction_seq [] ex = ex"
| "add_junction_seq (j # js) ex = add_junction_seq js (snd (add_junction j ex))"

subsection \<open>The command line\<close>

text \<open>
  The two exceptions \<^verbatim>\<open>parse_options\<close> throws, each with its message.
\<close>

datatype exn = cmdline_help_exception string | runtime_error string

definition usage :: string where
  "usage =
     [CHR 0x0A] @ ''Usage:'' @ [CHR 0x09, CHR 0x09] @
       ''regtools junctions extract [options] indexed_alignments.bam'' @
     [CHR 0x0A] @ ''Options:'' @
     [CHR 0x09] @ ''-a INT'' @ [CHR 0x09] @
       ''Minimum anchor length. Junctions which satisfy a minimum '' @
       ''anchor length on both sides are reported. [8]'' @
     [CHR 0x0A, CHR 0x09, CHR 0x09] @ ''-i INT'' @ [CHR 0x09] @ ''Minimum intron length. [70]'' @
     [CHR 0x0A, CHR 0x09, CHR 0x09] @ ''-I INT'' @ [CHR 0x09] @
       ''Maximum intron length. [500000]'' @
     [CHR 0x0A, CHR 0x09, CHR 0x09] @ ''-o FILE'' @ [CHR 0x09] @
       ''The file to write output to. [STDOUT]'' @
     [CHR 0x0A, CHR 0x09, CHR 0x09] @ ''-r STR'' @ [CHR 0x09] @
       ''The region to identify junctions '' @
       ''in '' @ [CHR 0x22] @ ''chr:start-end'' @ [CHR 0x22] @
       '' format. Entire BAM by default.'' @
     [CHR 0x0A]"

text \<open>
  The loop over the options. \<^verbatim>\<open>getopt\<close> and \<^verbatim>\<open>atoi\<close> belong to the C library, not to this
  program: the loop is given the pairs of option character and \<^verbatim>\<open>optarg\<close> that the successive
  calls of \<^verbatim>\<open>getopt\<close> return before \<open>-1\<close>, and \<^verbatim>\<open>atoi\<close> as a function. The \<^verbatim>\<open>switch\<close> is the
  program's: \<open>h\<close> throws the help text, any character other than the five options
  (\<^verbatim>\<open>'?'\<close> and \<^verbatim>\<open>default\<close>) throws the parse error.
\<close>

fun getopt_loop ::
  "(string \<Rightarrow> int) \<Rightarrow> (char \<times> string) list \<Rightarrow> JunctionsExtractor \<Rightarrow> exn + JunctionsExtractor"
where
  "getopt_loop atoi [] ex = Inr ex"
| "getopt_loop atoi ((c, optarg) # rest) ex =
     (if c = CHR ''a'' then getopt_loop atoi rest (ex\<lparr>min_anchor_length := atoi optarg\<rparr>)
      else if c = CHR ''i'' then getopt_loop atoi rest (ex\<lparr>min_intron_length := atoi optarg\<rparr>)
      else if c = CHR ''I'' then getopt_loop atoi rest (ex\<lparr>max_intron_length := atoi optarg\<rparr>)
      else if c = CHR ''o'' then getopt_loop atoi rest (ex\<lparr>output_file := optarg\<rparr>)
      else if c = CHR ''r'' then getopt_loop atoi rest (ex\<lparr>region := optarg\<rparr>)
      else if c = CHR ''h'' then Inl (cmdline_help_exception usage)
      else Inl (runtime_error ''Error parsing inputs!''))"

text \<open>
  \<^verbatim>\<open>parse_options\<close>: the loop, then the positional argument. \<open>argv\<close> is the argument vector
  (\<open>argc\<close> its length) and \<open>optind\<close> the index \<^verbatim>\<open>getopt\<close> leaves when it returns \<open>-1\<close>: the
  first argument that is not an option. The messages written to \<^verbatim>\<open>cerr\<close> are not modelled.
\<close>

definition parse_options ::
  "(string \<Rightarrow> int) \<Rightarrow> string list \<Rightarrow> (char \<times> string) list \<Rightarrow> nat \<Rightarrow> JunctionsExtractor
     \<Rightarrow> exn + int \<times> JunctionsExtractor"
where
  "parse_options atoi argv opts optind ex =
     (case getopt_loop atoi opts ex of
        Inl e \<Rightarrow> Inl e
      | Inr ex \<Rightarrow>
          let argc = length argv;
              (ex, optind) =
                (if int argc - int optind \<ge> 1 then (ex\<lparr>bam := argv ! optind\<rparr>, optind + 1)
                 else (ex, optind))
          in if optind < argc \<or> bam ex = ''NA''
             then Inl (runtime_error (CHR 0x0A # ''Error parsing inputs!''))
             else Inr (0, ex))"

section \<open>Properties\<close>

subsection \<open>Evaluating the renderings\<close>

text \<open>
  The equation of \<open>dec_nat\<close> is unfolded at numerals only, where it terminates.
\<close>

lemmas dec_nat_numeral = dec_nat.simps [of "numeral k" for k]

lemma dec_nat_small: "dec_nat 0 = ''0''" "dec_nat 1 = ''1''" "dec_nat (Suc 0) = ''1''"
  by (simp_all add: dec_nat.simps digit_char_def)

lemmas show_eval =
  show_int_def num_to_str_def dec_nat_numeral dec_nat_small digit_char_def setw_fill_def

lemma replicate_7: "replicate 7 x = [x, x, x, x, x, x, x]"
  by (simp add: eval_nat_numeral)

subsection \<open>The junction under construction: strand and anchor flags\<close>

text \<open>
  \<^verbatim>\<open>set_junction_strand\<close> writes the strand only, a string of one character, and no step of
  the walk writes the strand or an anchor flag. So every junction the walk hands to
  \<^verbatim>\<open>add_junction\<close>, and \<^verbatim>\<open>add_junction\<close> to \<^verbatim>\<open>junction_qc\<close> (its only caller, on its own
  copy), has a strand of length 1 and both anchor flags as the constructor left them: unset.
\<close>

lemma length_strand_set_junction_strand: "length (strand (set_junction_strand aln j)) = 1"
  by (simp add: set_junction_strand_def split: option.splits)

lemma cigar_step_strand: "strand (fst (cigar_step op len (j, b, ex))) = strand j"
  by (simp add: cigar_step_def Let_def)

lemma cigar_loop_strand: "strand (fst (cigar_loop ops (j, b, ex))) = strand j"
proof (induction ops arbitrary: j b ex)
  case Nil
  then show ?case by simp
next
  case (Cons a ops)
  obtain op len where a: "a = (op, len)" by (cases a)
  obtain j' b' ex' where st: "cigar_step op len (j, b, ex) = (j', b', ex')"
    by (cases "cigar_step op len (j, b, ex)")
  have "strand j' = strand j"
    using cigar_step_strand [of op len j b ex] st by simp
  then show ?case
    using Cons.IH [of j' b' ex'] by (simp add: a st)
qed

lemma set_junction_strand_flags:
  "has_left_min_anchor (set_junction_strand aln j) = has_left_min_anchor j"
  "has_right_min_anchor (set_junction_strand aln j) = has_right_min_anchor j"
  by (simp_all add: set_junction_strand_def split: option.splits)

lemma cigar_step_flags:
  "has_left_min_anchor (fst (cigar_step op len (j, b, ex))) = has_left_min_anchor j"
  "has_right_min_anchor (fst (cigar_step op len (j, b, ex))) = has_right_min_anchor j"
  by (simp_all add: cigar_step_def Let_def)

lemma cigar_loop_flags:
  "has_left_min_anchor (fst (cigar_loop ops (j, b, ex))) = has_left_min_anchor j \<and>
   has_right_min_anchor (fst (cigar_loop ops (j, b, ex))) = has_right_min_anchor j"
proof (induction ops arbitrary: j b ex)
  case Nil
  then show ?case by simp
next
  case (Cons a ops)
  obtain op len where a: "a = (op, len)" by (cases a)
  obtain j' b' ex' where st: "cigar_step op len (j, b, ex) = (j', b', ex')"
    by (cases "cigar_step op len (j, b, ex)")
  have "has_left_min_anchor j' = has_left_min_anchor j"
    "has_right_min_anchor j' = has_right_min_anchor j"
    using cigar_step_flags [of op len j b ex] st by simp_all
  then show ?case
    using Cons.IH [of j' b' ex'] by (simp add: a st)
qed

lemma walk_builder_unset_flags:
  "\<not> has_left_min_anchor
       (fst (cigar_loop ops
          (set_junction_strand aln
             (new_Junction\<lparr>chrom := target_name aln, start := pos aln,
                thick_start := pos aln\<rparr>), False, ex))) \<and>
   \<not> has_right_min_anchor
       (fst (cigar_loop ops
          (set_junction_strand aln
             (new_Junction\<lparr>chrom := target_name aln, start := pos aln,
                thick_start := pos aln\<rparr>), False, ex)))"
  by (simp add: cigar_loop_flags set_junction_strand_flags new_Junction_def)

lemma walk_builder_strand:
  "length (strand
     (fst (cigar_loop ops
        (set_junction_strand aln
           (new_Junction\<lparr>chrom := target_name aln, start := pos aln,
              thick_start := pos aln\<rparr>), False, ex)))) = 1"
  by (simp add: cigar_loop_strand length_strand_set_junction_strand)

subsection \<open>A second intron while a junction is open\<close>

text \<open>
  C1: when an intron operation (\<open>N\<close>) of length \<open>L\<close> is met while a junction is open, the walk
  first hands the open junction to \<open>add_junction\<close> (quality check and map), then goes on with
  a junction whose \<open>thick_start\<close> is the previous \<open>end\<close>, whose \<open>start\<close> is the previous
  \<open>thick_end\<close>, whose \<open>end\<close> is that start plus \<open>L\<close> and whose \<open>thick_end\<close> is that end; the
  junction stays open.
\<close>

theorem intron_while_open_commits_and_reopens:
  "cigar_step (CHR ''N'') L (j, True, ex) =
     (j\<lparr>thick_start := end j, start := thick_end j,
        end := thick_end j + L, thick_end := thick_end j + L\<rparr>,
      True,
      snd (add_junction j ex))"
  by (simp add: cigar_step_def Let_def)

subsection \<open>A record with two introns\<close>

lemma two_intron_walk:
  "parse_alignment_into_junctions
     \<lparr>target_name = c, pos = 0,
      cigar = [(CHR ''M'', 10), (CHR ''N'', 50), (CHR ''M'', 5), (CHR ''N'', 40),
               (CHR ''M'', 10)],
      aux_XS = x\<rparr> ex =
   (0, snd (add_junction
         (new_Junction
            \<lparr>chrom := c,
             strand := strand (set_junction_strand
               \<lparr>target_name = c, pos = 0,
                cigar = [(CHR ''M'', 10), (CHR ''N'', 50), (CHR ''M'', 5), (CHR ''N'', 40),
                         (CHR ''M'', 10)],
                aux_XS = x\<rparr> new_Junction),
             thick_start := 60, start := 65, end := 105, thick_end := 115\<rparr>)
         (snd (add_junction
            (new_Junction
               \<lparr>chrom := c,
                strand := strand (set_junction_strand
                  \<lparr>target_name = c, pos = 0,
                   cigar = [(CHR ''M'', 10), (CHR ''N'', 50), (CHR ''M'', 5), (CHR ''N'', 40),
                            (CHR ''M'', 10)],
                   aux_XS = x\<rparr> new_Junction),
                thick_start := 0, start := 10, end := 60, thick_end := 65\<rparr>)
            ex))))"
  by (cases x) (auto simp: cigar_step_def Let_def parse_alignment_into_junctions_def
      set_junction_strand_def new_Junction_def)

lemma add_first_of_two:
  assumes "min_intron_length ex = 20" "min_anchor_length ex = 8" "50 \<le> max_intron_length ex"
    "junctions ex = Map.empty"
  shows "snd (add_junction
           (new_Junction\<lparr>chrom := c, strand := s, thick_start := 0, start := 10, end := 60,
              thick_end := 65\<rparr>) ex) =
         ex\<lparr>junctions := [c @ '':10-1060:'' @ s \<mapsto>
           new_Junction\<lparr>chrom := c, strand := s, thick_start := 0, start := 10, end := 60,
             thick_end := 65, name := ''JUNC00000001'', read_count := 1, score := ''1'',
             has_left_min_anchor := True\<rparr>]\<rparr>"
  using assms
  by (simp add: new_Junction_def add_junction_def junction_qc_def junction_key_def Let_def
      get_new_junction_name_def show_eval replicate_7)

lemma add_second_of_two:
  assumes "min_intron_length ex = 20" "min_anchor_length ex = 8" "50 \<le> max_intron_length ex"
    "junctions ex = [c @ '':10-1060:'' @ s \<mapsto> A]"
  shows "snd (add_junction
           (new_Junction\<lparr>chrom := c, strand := s, thick_start := 60, start := 65, end := 105,
              thick_end := 115\<rparr>) ex) =
         ex\<lparr>junctions := [c @ '':10-1060:'' @ s \<mapsto> A, c @ '':65-65105:'' @ s \<mapsto>
           new_Junction\<lparr>chrom := c, strand := s, thick_start := 60, start := 65, end := 105,
             thick_end := 115, name := ''JUNC00000002'', read_count := 1, score := ''1'',
             has_right_min_anchor := True\<rparr>]\<rparr>"
  using assms
  by (simp add: new_Junction_def add_junction_def junction_qc_def junction_key_def Let_def
      get_new_junction_name_def show_eval replicate_7)

text \<open>
  C2: a record at position 0 with the operations Match 10, Intron 50, Match 5, Intron 40,
  Match 10, walked with minimum intron length 20, minimum anchor length 8 and a maximum intron
  length that admits both introns, puts exactly two junctions into an empty map. The second
  one has a left anchor of 5 (\<open>start - thick_start\<close>), so its \<open>has_left_min_anchor\<close> is false,
  and a right anchor of 10, so its \<open>has_right_min_anchor\<close> is true.
\<close>

theorem two_introns_short_middle_exon:
  assumes "min_intron_length ex = 20" and "min_anchor_length ex = 8"
    and "50 \<le> max_intron_length ex" and "junctions ex = Map.empty"
  shows
    "let aln = \<lparr>target_name = c, pos = 0,
                cigar = [(CHR ''M'', 10), (CHR ''N'', 50), (CHR ''M'', 5), (CHR ''N'', 40),
                         (CHR ''M'', 10)],
                aux_XS = x\<rparr>;
         s = strand (set_junction_strand aln new_Junction);
         first = new_Junction
           \<lparr>chrom := c, strand := s, thick_start := 0, start := 10, end := 60, thick_end := 65,
            name := ''JUNC00000001'', read_count := 1, score := ''1'',
            has_left_min_anchor := True\<rparr>;
         second = new_Junction
           \<lparr>chrom := c, strand := s, thick_start := 60, start := 65, end := 105, thick_end := 115,
            name := ''JUNC00000002'', read_count := 1, score := ''1'',
            has_right_min_anchor := True\<rparr>
     in parse_alignment_into_junctions aln ex =
          (0, ex\<lparr>junctions :=
                  [junction_key first \<mapsto> first, junction_key second \<mapsto> second]\<rparr>) \<and>
        junction_key first \<noteq> junction_key second \<and>
        start second - thick_start second = 5 \<and>
        \<not> has_left_min_anchor second \<and>
        thick_end second - end second = 10 \<and>
        has_right_min_anchor second"
proof -
  let ?aln = "\<lparr>target_name = c, pos = 0,
                cigar = [(CHR ''M'', 10), (CHR ''N'', 50), (CHR ''M'', 5), (CHR ''N'', 40),
                         (CHR ''M'', 10)],
                aux_XS = x\<rparr>"
  let ?s = "strand (set_junction_strand ?aln new_Junction)"
  let ?A = "new_Junction
           \<lparr>chrom := c, strand := ?s, thick_start := 0, start := 10, end := 60, thick_end := 65,
            name := ''JUNC00000001'', read_count := 1, score := ''1'',
            has_left_min_anchor := True\<rparr>"
  let ?B = "new_Junction
           \<lparr>chrom := c, strand := ?s, thick_start := 60, start := 65, end := 105, thick_end := 115,
            name := ''JUNC00000002'', read_count := 1, score := ''1'',
            has_right_min_anchor := True\<rparr>"
  have k1: "junction_key ?A = c @ '':10-1060:'' @ ?s"
    by (simp add: junction_key_def new_Junction_def show_eval)
  have k2: "junction_key ?B = c @ '':65-65105:'' @ ?s"
    by (simp add: junction_key_def new_Junction_def show_eval)
  have ne: "junction_key ?A \<noteq> junction_key ?B"
    unfolding k1 k2 by simp
  let ?ex1 = "ex\<lparr>junctions := [c @ '':10-1060:'' @ ?s \<mapsto> ?A]\<rparr>"
  have s1: "snd (add_junction
              (new_Junction\<lparr>chrom := c, strand := ?s, thick_start := 0, start := 10,
                 end := 60, thick_end := 65\<rparr>) ex) = ?ex1"
    using add_first_of_two [OF assms, where c = c and s = "?s"] by simp
  have s2: "snd (add_junction
              (new_Junction\<lparr>chrom := c, strand := ?s, thick_start := 60, start := 65,
                 end := 105, thick_end := 115\<rparr>) ?ex1) =
            ?ex1\<lparr>junctions :=
                   [c @ '':10-1060:'' @ ?s \<mapsto> ?A, c @ '':65-65105:'' @ ?s \<mapsto> ?B]\<rparr>"
    using assms(1-3) by (intro add_second_of_two) simp_all
  have walk: "parse_alignment_into_junctions ?aln ex =
      (0, ex\<lparr>junctions := [junction_key ?A \<mapsto> ?A, junction_key ?B \<mapsto> ?B]\<rparr>)"
    unfolding k1 k2 two_intron_walk s1 s2 by simp
  have fields: "start ?B - thick_start ?B = 5" "\<not> has_left_min_anchor ?B"
    "thick_end ?B - end ?B = 10" "has_right_min_anchor ?B"
    by (simp_all add: new_Junction_def)
  show ?thesis
    unfolding Let_def using walk ne fields by blast
qed

text \<open>The record on \<open>chr1\<close> with the tag \<open>XS:A:+\<close>, walked with the default maximum.\<close>

theorem two_introns_short_middle_exon_witness:
  "parse_alignment_into_junctions
     \<lparr>target_name = ''chr1'', pos = 0,
      cigar = [(CHR ''M'', 10), (CHR ''N'', 50), (CHR ''M'', 5), (CHR ''N'', 40),
               (CHR ''M'', 10)],
      aux_XS = Some (CHR ''+'')\<rparr>
     \<lparr>min_anchor_length = 8, min_intron_length = 20, max_intron_length = 500000,
      bam = ''NA'', output_file = ''NA'', region = [], junctions = Map.empty\<rparr> =
   (0, \<lparr>min_anchor_length = 8, min_intron_length = 20, max_intron_length = 500000,
        bam = ''NA'', output_file = ''NA'', region = [],
        junctions =
          [''chr1:10-1060:+'' \<mapsto>
             \<lparr>chrom = ''chr1'', start = 10, end = 60, thick_start = 0, thick_end = 65,
              strand = ''+'', name = ''JUNC00000001'', score = ''1'', read_count = 1,
              has_left_min_anchor = True, has_right_min_anchor = False\<rparr>,
           ''chr1:65-65105:+'' \<mapsto>
             \<lparr>chrom = ''chr1'', start = 65, end = 105, thick_start = 60, thick_end = 115,
              strand = ''+'', name = ''JUNC00000002'', score = ''1'', read_count = 1,
              has_left_min_anchor = False, has_right_min_anchor = True\<rparr>]\<rparr>)"
  using two_introns_short_middle_exon
    [of "\<lparr>min_anchor_length = 8, min_intron_length = 20, max_intron_length = 500000,
          bam = ''NA'', output_file = ''NA'', region = [], junctions = Map.empty\<rparr>"
        "''chr1''" "Some (CHR ''+'')"]
  by (simp add: Let_def set_junction_strand_def new_Junction_def junction_key_def show_eval)

subsection \<open>Merging into an entry of the map\<close>

lemma junction_qc_key: "junction_key (snd (junction_qc ex j)) = junction_key j"
  by (simp add: junction_qc_def junction_key_def Let_def)

lemma junction_qc_fields:
  "chrom (snd (junction_qc ex j)) = chrom j"
  "start (snd (junction_qc ex j)) = start j"
  "end (snd (junction_qc ex j)) = end j"
  "thick_start (snd (junction_qc ex j)) = thick_start j"
  "thick_end (snd (junction_qc ex j)) = thick_end j"
  "strand (snd (junction_qc ex j)) = strand j"
  by (simp_all add: junction_qc_def Let_def)

lemma add_junction_merge:
  assumes "fst (junction_qc ex j)" and "junctions ex (junction_key j) = Some j0"
  shows "add_junction j ex =
     (0, ex\<lparr>junctions := (junctions ex)(junction_key j \<mapsto>
        (snd (junction_qc ex j))
          \<lparr>read_count := read_count j0 + 1,
           score := num_to_str (read_count j0 + 1),
           name := name j0,
           thick_start := min (thick_start j0) (thick_start j),
           thick_end := max (thick_end j0) (thick_end j),
           has_left_min_anchor :=
             has_left_min_anchor j0 \<or> has_left_min_anchor (snd (junction_qc ex j)),
           has_right_min_anchor :=
             has_right_min_anchor j0 \<or> has_right_min_anchor (snd (junction_qc ex j))\<rparr>)\<rparr>)"
proof -
  obtain j1 where qc: "junction_qc ex j = (True, j1)"
    using assms(1) by (cases "junction_qc ex j") auto
  have key: "junction_key j1 = junction_key j"
    using junction_qc_key [of ex j] qc by simp
  have ts: "thick_start j = thick_start j1" and te: "thick_end j = thick_end j1"
    using junction_qc_fields(4,5) [of ex j] qc by simp_all
  show ?thesis
    using assms(2)
    by (auto simp: add_junction_def qc key Let_def ts te min_def max_def disj_commute)
qed

text \<open>
  C3: when \<open>add_junction\<close> is called with a candidate that the quality check accepts and whose
  key is in the map, the entry stored under that key afterwards is the checked candidate with
  \<open>read_count\<close> one more than the stored entry's, \<open>score\<close> the rendering of that count, the
  \<open>name\<close> of the stored entry (no new name, and not the candidate's), \<open>thick_start\<close> the
  minimum and \<open>thick_end\<close> the maximum of the stored and the incoming one, and each anchor
  flag the disjunction of the stored flag and the flag of the checked candidate.
\<close>

theorem merge_into_existing_entry:
  assumes "fst (junction_qc ex j)" and "junctions ex (junction_key j) = Some j0"
  shows "add_junction j ex =
     (0, ex\<lparr>junctions := (junctions ex)(junction_key j \<mapsto>
        (snd (junction_qc ex j))
          \<lparr>read_count := read_count j0 + 1,
           score := num_to_str (read_count j0 + 1),
           name := name j0,
           thick_start := min (thick_start j0) (thick_start j),
           thick_end := max (thick_end j0) (thick_end j),
           has_left_min_anchor :=
             has_left_min_anchor j0 \<or> has_left_min_anchor (snd (junction_qc ex j)),
           has_right_min_anchor :=
             has_right_min_anchor j0 \<or> has_right_min_anchor (snd (junction_qc ex j))\<rparr>)\<rparr>)"
  using assms by (rule add_junction_merge)

text \<open>
  A second read over the junction 1020 to 1120 of \<open>chr1\<close>, with a shorter left and a longer
  right anchor than the stored entry.
\<close>

theorem merge_into_existing_entry_witness:
  "let ex = \<lparr>min_anchor_length = 8, min_intron_length = 70, max_intron_length = 500000,
             bam = ''NA'', output_file = ''NA'', region = [],
             junctions =
               [''chr1:1020-10201120:+'' \<mapsto>
                  \<lparr>chrom = ''chr1'', start = 1020, end = 1120, thick_start = 1000,
                   thick_end = 1150, strand = ''+'', name = ''JUNC00000001'', score = ''1'',
                   read_count = 1, has_left_min_anchor = True,
                   has_right_min_anchor = True\<rparr>]\<rparr>;
       j = new_Junction\<lparr>chrom := ''chr1'', start := 1020, end := 1120, thick_start := 1015,
             thick_end := 1160, strand := ''+''\<rparr>
   in fst (junction_qc ex j) \<and>
      junction_key j = ''chr1:1020-10201120:+'' \<and>
      junctions ex (junction_key j) \<noteq> None \<and>
      junctions (snd (add_junction j ex)) (junction_key j) =
        Some \<lparr>chrom = ''chr1'', start = 1020, end = 1120, thick_start = 1000,
              thick_end = 1160, strand = ''+'', name = ''JUNC00000001'', score = ''2'',
              read_count = 2, has_left_min_anchor = True, has_right_min_anchor = True\<rparr>"
  using merge_into_existing_entry
    [of "\<lparr>min_anchor_length = 8, min_intron_length = 70, max_intron_length = 500000,
             bam = ''NA'', output_file = ''NA'', region = [],
             junctions =
               [''chr1:1020-10201120:+'' \<mapsto>
                  \<lparr>chrom = ''chr1'', start = 1020, end = 1120, thick_start = 1000,
                   thick_end = 1150, strand = ''+'', name = ''JUNC00000001'', score = ''1'',
                   read_count = 1, has_left_min_anchor = True,
                   has_right_min_anchor = True\<rparr>]\<rparr>"
        "new_Junction\<lparr>chrom := ''chr1'', start := 1020, end := 1120, thick_start := 1015,
             thick_end := 1160, strand := ''+''\<rparr>"
        "\<lparr>chrom = ''chr1'', start = 1020, end = 1120, thick_start = 1000,
                   thick_end = 1150, strand = ''+'', name = ''JUNC00000001'', score = ''1'',
                   read_count = 1, has_left_min_anchor = True,
                   has_right_min_anchor = True\<rparr>"]
  by (simp add: Let_def junction_qc_def new_Junction_def junction_key_def show_eval)

subsection \<open>The quality check\<close>

text \<open>
  What \<^verbatim>\<open>junction_qc\<close> does to the flags of any junction it accepts: it raises a flag whose
  anchor is long enough and writes nothing otherwise.
\<close>

lemma junction_qc_raises_flags:
  "fst (junction_qc ex j) \<Longrightarrow>
   snd (junction_qc ex j) =
     j\<lparr>has_left_min_anchor :=
          has_left_min_anchor j \<or> start j - thick_start j \<ge> min_anchor_length ex,
        has_right_min_anchor :=
          has_right_min_anchor j \<or> thick_end j - end j \<ge> min_anchor_length ex\<rparr>"
  by (auto simp: junction_qc_def Let_def)

text \<open>
  C4: \<open>junction_qc\<close> rejects a candidate (returns false and leaves it as it is) if and only if
  \<open>end - start\<close> is less than the minimum or greater than the maximum intron length; for
  every accepted candidate the flag \<open>has_left_min_anchor\<close> is afterwards
  \<open>start - thick_start \<ge> min_anchor_length\<close> and the flag \<open>has_right_min_anchor\<close> is
  \<open>thick_end - end \<ge> min_anchor_length\<close>, each independently of the other, and no other
  field changes. The candidates are the ones the program checks: junctions whose flags are
  unset on entry, as \<open>walk_builder_unset_flags\<close> shows for every junction of the walk.
\<close>

theorem junction_qc_verdict_and_flags:
  assumes "\<not> has_left_min_anchor j" and "\<not> has_right_min_anchor j"
  shows "(\<not> fst (junction_qc ex j) \<longleftrightarrow>
            end j - start j < min_intron_length ex \<or> end j - start j > max_intron_length ex) \<and>
         (if fst (junction_qc ex j)
          then snd (junction_qc ex j) =
                 j\<lparr>has_left_min_anchor := (start j - thick_start j \<ge> min_anchor_length ex),
                    has_right_min_anchor := (thick_end j - end j \<ge> min_anchor_length ex)\<rparr>
          else snd (junction_qc ex j) = j)"
  using assms by (auto simp: junction_qc_def Let_def)

text \<open>
  The junction of the record Match 20, Intron 100, Match 30 at position 1000, against a
  minimum anchor length of 25: accepted, the left flag false and the right flag true.
\<close>

theorem junction_qc_verdict_and_flags_witness:
  "let ex = \<lparr>min_anchor_length = 25, min_intron_length = 70, max_intron_length = 500000,
             bam = ''NA'', output_file = ''NA'', region = [], junctions = Map.empty\<rparr>;
       j = new_Junction\<lparr>chrom := ''chr1'', start := 1020, end := 1120, thick_start := 1000,
             thick_end := 1150, strand := ''+''\<rparr>
   in \<not> has_left_min_anchor j \<and> \<not> has_right_min_anchor j \<and>
      fst (junction_qc ex j) \<and>
      \<not> has_left_min_anchor (snd (junction_qc ex j)) \<and>
      has_right_min_anchor (snd (junction_qc ex j))"
  using junction_qc_verdict_and_flags
    [of "new_Junction\<lparr>chrom := ''chr1'', start := 1020, end := 1120, thick_start := 1000,
          thick_end := 1150, strand := ''+''\<rparr>"
        "\<lparr>min_anchor_length = 25, min_intron_length = 70, max_intron_length = 500000,
          bam = ''NA'', output_file = ''NA'', region = [], junctions = Map.empty\<rparr>"]
  by (simp add: Let_def new_Junction_def junction_qc_def)

subsection \<open>Deletions and mismatches\<close>

text \<open>
  C5: a deletion (\<open>D\<close>) or mismatch (\<open>X\<close>) of length \<open>L\<close> outside an open junction advances
  \<open>start\<close> by \<open>L\<close> and puts \<open>thick_start\<close> at the new start; inside an open junction the walk
  hands the junction to \<open>add_junction\<close> and goes on, closed, with \<open>start\<close> at the previous
  \<open>thick_end\<close> plus \<open>L\<close> and \<open>thick_start\<close> at that start. For the operations Match 10,
  Deletion 3, Match 10, Intron 80, Match 10 the one junction handed to \<open>add_junction\<close> has a
  left anchor of 10: the ten bases after the deletion, without the ten before it.
\<close>

theorem deletion_or_mismatch_resets_anchor:
  "cigar_step (CHR ''D'') L (j, False, ex) =
     (j\<lparr>start := start j + L, thick_start := start j + L\<rparr>, False, ex) \<and>
   cigar_step (CHR ''X'') L (j, False, ex) =
     (j\<lparr>start := start j + L, thick_start := start j + L\<rparr>, False, ex) \<and>
   cigar_step (CHR ''D'') L (j, True, ex) =
     (j\<lparr>start := thick_end j + L, thick_start := thick_end j + L\<rparr>, False,
      snd (add_junction j ex)) \<and>
   cigar_step (CHR ''X'') L (j, True, ex) =
     (j\<lparr>start := thick_end j + L, thick_start := thick_end j + L\<rparr>, False,
      snd (add_junction j ex)) \<and>
   (let aln = \<lparr>target_name = c, pos = p,
                cigar = [(CHR ''M'', 10), (CHR ''D'', 3), (CHR ''M'', 10), (CHR ''N'', 80),
                         (CHR ''M'', 10)],
                aux_XS = x\<rparr>;
        cand = (set_junction_strand aln (new_Junction\<lparr>chrom := c\<rparr>))
                 \<lparr>thick_start := p + 13, start := p + 23, end := p + 103,
                  thick_end := p + 113\<rparr>
    in parse_alignment_into_junctions aln ex = (0, snd (add_junction cand ex)) \<and>
       start cand - thick_start cand = 10)"
  by (cases x) (auto simp: cigar_step_def Let_def parse_alignment_into_junctions_def
      set_junction_strand_def new_Junction_def add.commute)

subsection \<open>Merges only widen\<close>

lemma add_junction_thresholds:
  "min_anchor_length (snd (add_junction j ex)) = min_anchor_length ex"
  "min_intron_length (snd (add_junction j ex)) = min_intron_length ex"
  "max_intron_length (snd (add_junction j ex)) = max_intron_length ex"
  by (auto simp: add_junction_def Let_def split: prod.splits bool.splits)

lemma junction_qc_cong:
  assumes "min_anchor_length ex' = min_anchor_length ex"
    "min_intron_length ex' = min_intron_length ex"
    "max_intron_length ex' = max_intron_length ex"
  shows "junction_qc ex' j = junction_qc ex j"
  using assms by (simp add: junction_qc_def)

lemma junction_qc_after_add: "junction_qc (snd (add_junction j ex)) j' = junction_qc ex j'"
  by (rule junction_qc_cong) (rule add_junction_thresholds)+

lemma junction_qc_after_seq: "junction_qc (add_junction_seq js ex) j' = junction_qc ex j'"
  by (induction js arbitrary: ex) (simp_all add: junction_qc_after_add)

lemma add_junction_seq_append:
  "add_junction_seq (js1 @ js2) ex = add_junction_seq js2 (add_junction_seq js1 ex)"
  by (induction js1 arbitrary: ex) simp_all

lemma merges_widen:
  assumes "junctions ex k = Some e"
    and "\<forall>j\<in>set js. fst (junction_qc ex j) \<and> junction_key j = k"
  shows "\<exists>e'. junctions (add_junction_seq js ex) k = Some e' \<and>
           thick_start e' \<le> thick_start e \<and> thick_end e \<le> thick_end e' \<and>
           read_count e' = read_count e + int (length js) \<and>
           (has_left_min_anchor e \<longrightarrow> has_left_min_anchor e') \<and>
           (has_right_min_anchor e \<longrightarrow> has_right_min_anchor e')"
  using assms
proof (induction js arbitrary: ex e)
  case Nil
  then show ?case by simp
next
  case (Cons j js)
  have acc: "fst (junction_qc ex j)" and key: "junction_key j = k"
    using Cons.prems(2) by simp_all
  define e1 where "e1 = the (junctions (snd (add_junction j ex)) k)"
  have step: "junctions (snd (add_junction j ex)) k = Some e1"
    and w: "thick_start e1 \<le> thick_start e" "thick_end e \<le> thick_end e1"
      "read_count e1 = read_count e + 1"
      "has_left_min_anchor e \<longrightarrow> has_left_min_anchor e1"
      "has_right_min_anchor e \<longrightarrow> has_right_min_anchor e1"
    unfolding e1_def
    using add_junction_merge [OF acc, of e] Cons.prems(1) key by simp_all
  have rest: "\<forall>j'\<in>set js. fst (junction_qc (snd (add_junction j ex)) j') \<and> junction_key j' = k"
    using Cons.prems(2) by (simp add: junction_qc_after_add)
  from Cons.IH [OF step rest] obtain e' where
    "junctions (add_junction_seq js (snd (add_junction j ex))) k = Some e'"
    "thick_start e' \<le> thick_start e1" "thick_end e1 \<le> thick_end e'"
    "read_count e' = read_count e1 + int (length js)"
    "has_left_min_anchor e1 \<longrightarrow> has_left_min_anchor e'"
    "has_right_min_anchor e1 \<longrightarrow> has_right_min_anchor e'"
    by blast
  with w show ?case by auto
qed

text \<open>
  C6: over any run of calls of \<open>add_junction\<close> that merge accepted candidates into one key
  of the map, between any two points of the run the stored \<open>thick_start\<close> does not grow, the
  stored \<open>thick_end\<close> does not shrink, \<open>read_count\<close> grows by one for every merge, and an
  anchor flag that is set stays set.
\<close>

theorem merges_are_monotone:
  assumes "junctions ex k = Some e0"
    and "\<forall>j\<in>set (js1 @ js2). fst (junction_qc ex j) \<and> junction_key j = k"
  shows "\<exists>e1 e2.
           junctions (add_junction_seq js1 ex) k = Some e1 \<and>
           junctions (add_junction_seq (js1 @ js2) ex) k = Some e2 \<and>
           thick_start e2 \<le> thick_start e1 \<and> thick_end e1 \<le> thick_end e2 \<and>
           read_count e2 = read_count e1 + int (length js2) \<and>
           (js2 \<noteq> [] \<longrightarrow> read_count e1 < read_count e2) \<and>
           (has_left_min_anchor e1 \<longrightarrow> has_left_min_anchor e2) \<and>
           (has_right_min_anchor e1 \<longrightarrow> has_right_min_anchor e2)"
proof -
  have a1: "\<forall>j\<in>set js1. fst (junction_qc ex j) \<and> junction_key j = k"
    using assms(2) by simp
  from merges_widen [OF assms(1) a1] obtain e1 where
    e1: "junctions (add_junction_seq js1 ex) k = Some e1" by blast
  have a2: "\<forall>j\<in>set js2. fst (junction_qc (add_junction_seq js1 ex) j) \<and> junction_key j = k"
    using assms(2) by (simp add: junction_qc_after_seq)
  from merges_widen [OF e1 a2] obtain e2 where
    "junctions (add_junction_seq js2 (add_junction_seq js1 ex)) k = Some e2"
    "thick_start e2 \<le> thick_start e1" "thick_end e1 \<le> thick_end e2"
    "read_count e2 = read_count e1 + int (length js2)"
    "has_left_min_anchor e1 \<longrightarrow> has_left_min_anchor e2"
    "has_right_min_anchor e1 \<longrightarrow> has_right_min_anchor e2"
    by blast
  with e1 show ?thesis
    by (auto simp: add_junction_seq_append)
qed

text \<open>Two more reads over a stored junction, one after the other.\<close>

theorem merges_are_monotone_witness:
  "let e0 = \<lparr>chrom = ''chr1'', start = 1020, end = 1120, thick_start = 1010,
             thick_end = 1150, strand = ''+'', name = ''JUNC00000001'', score = ''1'',
             read_count = 1, has_left_min_anchor = True, has_right_min_anchor = True\<rparr>;
       ex = \<lparr>min_anchor_length = 8, min_intron_length = 70, max_intron_length = 500000,
             bam = ''NA'', output_file = ''NA'', region = [],
             junctions = [''chr1:1020-10201120:+'' \<mapsto> e0]\<rparr>;
       j = new_Junction\<lparr>chrom := ''chr1'', start := 1020, end := 1120, thick_start := 1015,
             thick_end := 1160, strand := ''+''\<rparr>;
       j' = new_Junction\<lparr>chrom := ''chr1'', start := 1020, end := 1120, thick_start := 1000,
             thick_end := 1125, strand := ''+''\<rparr>
   in junctions ex (junction_key j) = Some e0 \<and>
      fst (junction_qc ex j) \<and> fst (junction_qc ex j') \<and> junction_key j' = junction_key j \<and>
      (\<exists>e1 e2.
         junctions (add_junction_seq [j] ex) (junction_key j) = Some e1 \<and>
         junctions (add_junction_seq [j, j'] ex) (junction_key j) = Some e2 \<and>
         thick_start e2 \<le> thick_start e1 \<and> thick_end e1 \<le> thick_end e2 \<and>
         read_count e2 = read_count e1 + 1 \<and> read_count e1 < read_count e2 \<and>
         (has_left_min_anchor e1 \<longrightarrow> has_left_min_anchor e2) \<and>
         (has_right_min_anchor e1 \<longrightarrow> has_right_min_anchor e2))"
  using merges_are_monotone
    [of "\<lparr>min_anchor_length = 8, min_intron_length = 70, max_intron_length = 500000,
             bam = ''NA'', output_file = ''NA'', region = [],
             junctions = [''chr1:1020-10201120:+'' \<mapsto> \<lparr>chrom = ''chr1'', start = 1020, end = 1120, thick_start = 1010,
             thick_end = 1150, strand = ''+'', name = ''JUNC00000001'', score = ''1'',
             read_count = 1, has_left_min_anchor = True, has_right_min_anchor = True\<rparr>]\<rparr>"
        "''chr1:1020-10201120:+''"
        "\<lparr>chrom = ''chr1'', start = 1020, end = 1120, thick_start = 1010,
             thick_end = 1150, strand = ''+'', name = ''JUNC00000001'', score = ''1'',
             read_count = 1, has_left_min_anchor = True, has_right_min_anchor = True\<rparr>"
        "[new_Junction\<lparr>chrom := ''chr1'', start := 1020, end := 1120, thick_start := 1015,
             thick_end := 1160, strand := ''+''\<rparr>]"
        "[new_Junction\<lparr>chrom := ''chr1'', start := 1020, end := 1120, thick_start := 1000,
             thick_end := 1125, strand := ''+''\<rparr>]"]
  by (simp add: Let_def junction_qc_def new_Junction_def junction_key_def show_eval)

subsection \<open>The key of the map\<close>

text \<open>
  The decimal rendering: digits only after an optional minus sign, never empty, and read back
  in one way.
\<close>

lemma digit_char_range: "d < 10 \<Longrightarrow> digit_char d \<in> set ''0123456789''"
proof -
  assume "d < 10"
  then have "d \<in> {0, 1, 2, 3, 4, 5, 6, 7, 8, 9}" by auto
  then show ?thesis by (auto simp: digit_char_def)
qed

lemma digit_char_inj: "d < 10 \<Longrightarrow> d' < 10 \<Longrightarrow> digit_char d = digit_char d' \<Longrightarrow> d = d'"
  using nth_eq_iff_index_eq [of "''0123456789''" d d'] by (simp add: digit_char_def)

lemma dec_nat_digits: "set (dec_nat n) \<subseteq> set ''0123456789''"
proof (induction n rule: dec_nat.induct)
  case (1 n)
  show ?case
  proof (cases "n < 10")
    case True
    then show ?thesis
      using digit_char_range [of n] by (subst dec_nat.simps) simp
  next
    case False
    have "n mod 10 < 10" by simp
    then show ?thesis
      using "1" False digit_char_range [of "n mod 10"] by (subst dec_nat.simps) simp
  qed
qed

lemma dec_nat_nonempty: "dec_nat n \<noteq> []"
  by (subst dec_nat.simps) simp

lemma dec_nat_length: "10 \<le> n \<Longrightarrow> 2 \<le> length (dec_nat n)"
  using dec_nat_nonempty [of "n div 10"]
  by (subst dec_nat.simps) (cases "dec_nat (n div 10)"; simp)

lemma dec_nat_inj: "dec_nat a = dec_nat b \<Longrightarrow> a = b"
proof (induction a arbitrary: b rule: dec_nat.induct)
  case (1 a)
  show ?case
  proof (cases "a < 10")
    case True
    then have la: "dec_nat a = [digit_char a]" by (subst dec_nat.simps) simp
    have "b < 10"
    proof (rule ccontr)
      assume "\<not> b < 10"
      then have "2 \<le> length (dec_nat b)" using dec_nat_length [of b] by simp
      then show False using "1.prems" [symmetric] la by simp
    qed
    then have "dec_nat b = [digit_char b]" by (subst dec_nat.simps) simp
    then show ?thesis using "1.prems" la True \<open>b < 10\<close> digit_char_inj by simp
  next
    case False
    then have la: "dec_nat a = dec_nat (a div 10) @ [digit_char (a mod 10)]"
      by (subst dec_nat.simps) simp
    have nb: "\<not> b < 10"
    proof
      assume "b < 10"
      then have "dec_nat b = [digit_char b]" by (subst dec_nat.simps) simp
      moreover have "2 \<le> length (dec_nat a)" using dec_nat_length [of a] False by simp
      ultimately show False using "1.prems" by simp
    qed
    then have lb: "dec_nat b = dec_nat (b div 10) @ [digit_char (b mod 10)]"
      by (subst dec_nat.simps) simp
    from "1.prems" la lb have
      eq1: "dec_nat (a div 10) = dec_nat (b div 10)" and
      eq2: "digit_char (a mod 10) = digit_char (b mod 10)" by simp_all
    have "a div 10 = b div 10" using "1.IH" [OF False eq1] .
    moreover have "a mod 10 = b mod 10" using digit_char_inj [OF _ _ eq2] by simp
    ultimately show ?thesis by (metis div_mult_mod_eq)
  qed
qed

lemma dec_nat_no_minus: "CHR ''-'' \<notin> set (dec_nat n)"
  using dec_nat_digits [of n] by auto

lemma show_int_no_colon: "CHR '':'' \<notin> set (show_int i)"
  using dec_nat_digits [of "nat i"] dec_nat_digits [of "nat (- i)"]
  by (auto simp: show_int_def)

lemma show_int_inj: "show_int a = show_int b \<Longrightarrow> a = b"
proof -
  assume eq: "show_int a = show_int b"
  have hd_digit: "\<And>n. hd (dec_nat n) \<noteq> CHR ''-''"
    using dec_nat_no_minus dec_nat_nonempty by (metis list.set_sel(1))
  show ?thesis
  proof (cases "a < 0")
    case True
    show ?thesis
    proof (cases "b < 0")
      case True
      with \<open>a < 0\<close> eq have "dec_nat (nat (- a)) = dec_nat (nat (- b))"
        by (simp add: show_int_def)
      then have "nat (- a) = nat (- b)" by (rule dec_nat_inj)
      with True \<open>a < 0\<close> show ?thesis by simp
    next
      case False
      with \<open>a < 0\<close> eq have "CHR ''-'' # dec_nat (nat (- a)) = dec_nat (nat b)"
        by (simp add: show_int_def)
      then have "hd (dec_nat (nat b)) = CHR ''-''" by (metis list.sel(1))
      then show ?thesis using hd_digit by simp
    qed
  next
    case False
    show ?thesis
    proof (cases "b < 0")
      case True
      with False eq have "dec_nat (nat a) = CHR ''-'' # dec_nat (nat (- b))"
        by (simp add: show_int_def)
      then have "hd (dec_nat (nat a)) = CHR ''-''" by (metis list.sel(1))
      then show ?thesis using hd_digit by simp
    next
      case nb: False
      with False eq have "dec_nat (nat a) = dec_nat (nat b)"
        by (simp add: show_int_def)
      then have "nat a = nat b" by (rule dec_nat_inj)
      with False nb show ?thesis by simp
    qed
  qed
qed

text \<open>A run of digits before a minus sign is read back in one way only.\<close>

lemma first_separator:
  assumes "c \<notin> set u" "c \<notin> set v" and eq: "u @ c # x = v @ c # y"
  shows "u = v \<and> x = y"
proof -
  have tw: "\<And>w z. c \<notin> set w \<Longrightarrow> takeWhile (\<lambda>a. a \<noteq> c) (w @ c # z) = w"
  proof -
    fix w z show "c \<notin> set w \<Longrightarrow> takeWhile (\<lambda>a. a \<noteq> c) (w @ c # z) = w"
      by (induction w) auto
  qed
  have "takeWhile (\<lambda>a. a \<noteq> c) (u @ c # x) = u"
    using assms(1) by (rule tw)
  moreover have "takeWhile (\<lambda>a. a \<noteq> c) (v @ c # y) = v"
    using assms(2) by (rule tw)
  ultimately have "u = v" using eq by simp
  with eq show ?thesis by simp
qed

lemma show_int_then_minus:
  assumes "show_int a @ CHR ''-'' # x = show_int b @ CHR ''-'' # y"
  shows "a = b \<and> x = y"
proof -
  have hd_digit: "\<And>n. hd (dec_nat n) \<noteq> CHR ''-''"
    using dec_nat_no_minus dec_nat_nonempty by (metis list.set_sel(1))
  have hd_app: "\<And>n z. hd (dec_nat n @ z) \<noteq> CHR ''-''"
    using hd_digit dec_nat_nonempty by (simp add: hd_append)
  have nonneg: "\<And>m n x y. dec_nat m @ CHR ''-'' # x = dec_nat n @ CHR ''-'' # y \<Longrightarrow> m = n \<and> x = y"
    using first_separator [OF dec_nat_no_minus dec_nat_no_minus] dec_nat_inj by blast
  show ?thesis
  proof (cases "a < 0")
    case True
    show ?thesis
    proof (cases "b < 0")
      case True
      with \<open>a < 0\<close> assms have "nat (- a) = nat (- b) \<and> x = y"
        by (intro nonneg) (simp add: show_int_def)
      with True \<open>a < 0\<close> show ?thesis by auto
    next
      case False
      with \<open>a < 0\<close> assms
      have "CHR ''-'' # dec_nat (nat (- a)) @ CHR ''-'' # x = dec_nat (nat b) @ CHR ''-'' # y"
        by (simp add: show_int_def)
      then have "hd (dec_nat (nat b) @ CHR ''-'' # y) = CHR ''-''" by (metis list.sel(1))
      then show ?thesis using hd_app by simp
    qed
  next
    case False
    show ?thesis
    proof (cases "b < 0")
      case True
      with False assms
      have "dec_nat (nat a) @ CHR ''-'' # x = CHR ''-'' # dec_nat (nat (- b)) @ CHR ''-'' # y"
        by (simp add: show_int_def)
      then have "hd (dec_nat (nat a) @ CHR ''-'' # x) = CHR ''-''" by (metis list.sel(1))
      then show ?thesis using hd_app by simp
    next
      case nb: False
      with False assms have "nat a = nat b \<and> x = y"
        by (intro nonneg) (simp add: show_int_def)
      with False nb show ?thesis by auto
    qed
  qed
qed

lemma colon_free_suffix:
  assumes "CHR '':'' \<notin> set t" "CHR '':'' \<notin> set u"
    and "x @ CHR '':'' # t = y @ CHR '':'' # u"
  shows "x = y \<and> t = u"
proof -
  from assms(3) have "rev (x @ CHR '':'' # t) = rev (y @ CHR '':'' # u)" by simp
  then have "rev t @ CHR '':'' # rev x = rev u @ CHR '':'' # rev y" by simp
  moreover have "CHR '':'' \<notin> set (rev t)" "CHR '':'' \<notin> set (rev u)" using assms(1,2) by simp_all
  ultimately have "rev t = rev u \<and> rev x = rev y" by (intro first_separator)
  then show ?thesis by simp
qed

lemma show_int_nonempty: "show_int i \<noteq> []"
  using dec_nat_nonempty by (simp add: show_int_def)

lemma key_body_last:
  "last (c @ CHR '':'' # show_int a @ CHR ''-'' # show_int a @ show_int b) \<noteq> CHR '':''"
proof -
  have "last (c @ CHR '':'' # show_int a @ CHR ''-'' # show_int a @ show_int b) =
        last (show_int b)"
    using show_int_nonempty [of b] by simp
  moreover have "last (show_int b) \<in> set (show_int b)"
    using show_int_nonempty [of b] by simp
  ultimately show ?thesis using show_int_no_colon [of b] by metis
qed

lemma strand_separator:
  assumes h1: "length s1 = 1 \<or> CHR '':'' \<notin> set s1"
    and h2: "length s2 = 1 \<or> CHR '':'' \<notin> set s2"
    and l1: "last b1 \<noteq> CHR '':''" and l2: "last b2 \<noteq> CHR '':''"
    and n1: "b1 \<noteq> []" and n2: "b2 \<noteq> []"
    and eq: "b1 @ CHR '':'' # s1 = b2 @ CHR '':'' # s2"
  shows "b1 = b2 \<and> s1 = s2"
proof -
  have shape: "\<And>s. length s = 1 \<or> CHR '':'' \<notin> set s \<Longrightarrow> s = '':'' \<or> CHR '':'' \<notin> set s"
  proof -
    fix s :: string
    assume "length s = 1 \<or> CHR '':'' \<notin> set s"
    then show "s = '':'' \<or> CHR '':'' \<notin> set s"
      by (cases s) auto
  qed
  have mixed: "False"
    if "b @ CHR '':'' # '':'' = b' @ CHR '':'' # s" "CHR '':'' \<notin> set s" "last b' \<noteq> CHR '':''" "b' \<noteq> []"
    for b b' s
  proof (cases "s = []")
    case True
    with that(1) have "b @ [CHR '':''] = b'"
      by (metis append.assoc append_Cons append_Nil butlast_snoc)
    then have "last b' = CHR '':''" by auto
    with that(3) show False by simp
  next
    case False
    then have "last (b' @ CHR '':'' # s) = last s" by simp
    moreover have "last (b @ CHR '':'' # '':'') = CHR '':''" by simp
    ultimately have "last s = CHR '':''" using that(1) by simp
    moreover have "last s \<in> set s" using False by simp
    ultimately show False using that(2) by simp
  qed
  from shape [OF h1] shape [OF h2] show ?thesis
  proof (elim disjE)
    assume "s1 = '':''" "s2 = '':''"
    with eq show ?thesis by simp
  next
    assume "s1 = '':''" "CHR '':'' \<notin> set s2"
    with mixed [of b1 b2 s2] eq l2 n2 show ?thesis by simp
  next
    assume "CHR '':'' \<notin> set s1" "s2 = '':''"
    with mixed [of b2 b1 s1] eq l1 n1 show ?thesis by simp
  next
    assume "CHR '':'' \<notin> set s1" "CHR '':'' \<notin> set s2"
    from colon_free_suffix [OF this eq] show ?thesis .
  qed
qed

text \<open>
  C7: the key that \<open>add_junction\<close> computes is injective on (chrom, start, end, strand):
  two candidates with equal tuples have equal keys, and two candidates whose tuples differ
  in a component have keys that differ. The candidates are junctions whose strand is a single
  character, as the data model has it and as \<open>walk_builder_strand\<close> shows for every junction
  of the walk; the same holds for a strand of any length without a colon. Chromosome names
  and coordinates are arbitrary.
\<close>

theorem junction_key_injective:
  assumes "length (strand j1) = 1 \<or> CHR '':'' \<notin> set (strand j1)"
    and "length (strand j2) = 1 \<or> CHR '':'' \<notin> set (strand j2)"
  shows "junction_key j1 = junction_key j2 \<longleftrightarrow>
         chrom j1 = chrom j2 \<and> start j1 = start j2 \<and> end j1 = end j2 \<and> strand j1 = strand j2"
proof
  assume eq: "junction_key j1 = junction_key j2"
  let ?t1 = "show_int (start j1) @ CHR ''-'' # show_int (start j1) @ show_int (end j1)"
  let ?t2 = "show_int (start j2) @ CHR ''-'' # show_int (start j2) @ show_int (end j2)"
  let ?b1 = "chrom j1 @ CHR '':'' # ?t1"
  let ?b2 = "chrom j2 @ CHR '':'' # ?t2"
  from eq have "?b1 @ CHR '':'' # strand j1 = ?b2 @ CHR '':'' # strand j2"
    by (simp add: junction_key_def Let_def)
  from strand_separator [OF assms key_body_last key_body_last _ _ this]
  have body: "?b1 = ?b2" and s: "strand j1 = strand j2" by simp_all
  have "CHR '':'' \<notin> set ?t1" "CHR '':'' \<notin> set ?t2"
    using show_int_no_colon by simp_all
  from colon_free_suffix [OF this body] have ch: "chrom j1 = chrom j2" and t: "?t1 = ?t2"
    by simp_all
  from show_int_then_minus [OF t] have st: "start j1 = start j2"
    and se: "show_int (start j1) @ show_int (end j1) = show_int (start j2) @ show_int (end j2)"
    by blast+
  have "show_int (start j1) = show_int (start j2)" using st by simp
  with se have "show_int (end j1) = show_int (end j2)" by simp
  then have "end j1 = end j2" by (rule show_int_inj)
  with ch st s show "chrom j1 = chrom j2 \<and> start j1 = start j2 \<and> end j1 = end j2 \<and> strand j1 = strand j2"
    by simp
next
  assume "chrom j1 = chrom j2 \<and> start j1 = start j2 \<and> end j1 = end j2 \<and> strand j1 = strand j2"
  then show "junction_key j1 = junction_key j2" by (simp add: junction_key_def)
qed

text \<open>
  The keys \<open>chr1:1-123:+\<close> and \<open>chr1:12-123:+\<close> of the intervals 1 to 23 and 12 to 3.
\<close>

theorem junction_key_injective_witness:
  "length (strand (new_Junction\<lparr>chrom := ''chr1'', start := 1, end := 23, strand := ''+''\<rparr>)) = 1 \<and>
   length (strand (new_Junction\<lparr>chrom := ''chr1'', start := 12, end := 3, strand := ''+''\<rparr>)) = 1 \<and>
   junction_key (new_Junction\<lparr>chrom := ''chr1'', start := 1, end := 23, strand := ''+''\<rparr>) \<noteq>
   junction_key (new_Junction\<lparr>chrom := ''chr1'', start := 12, end := 3, strand := ''+''\<rparr>)"
  using junction_key_injective
    [of "new_Junction\<lparr>chrom := ''chr1'', start := 1, end := 23, strand := ''+''\<rparr>"
        "new_Junction\<lparr>chrom := ''chr1'', start := 12, end := 3, strand := ''+''\<rparr>"]
  by (simp add: new_Junction_def)

text \<open>
  The condition on the strand is what the proof rests on: read as a function on strings of
  any content, outside the data model, the key would let a strand with colons stand for the
  end of another chromosome name. No junction of the program has such a strand.
\<close>

lemma junction_key_strand_with_colons:
  "let a = new_Junction\<lparr>chrom := ''c'', start := 1, end := 100, thick_start := 1,
             thick_end := 100, strand := ''x:3-3103:+''\<rparr>;
       b = new_Junction\<lparr>chrom := ''c:1-1100:x'', start := 3, end := 103, thick_start := 3,
             thick_end := 103, strand := ''+''\<rparr>
   in junction_key a = junction_key b"
  by (simp add: Let_def junction_key_def new_Junction_def show_eval)

subsection \<open>Rejected candidates\<close>

text \<open>
  C8: for a candidate whose intron length \<open>end - start\<close> is below the minimum or above the
  maximum, \<open>add_junction\<close> returns 0 and leaves the object as it was: no entry is added or
  changed, and the next junction name is the same as before.
\<close>

theorem rejected_candidate_leaves_store:
  assumes "end j - start j < min_intron_length ex \<or> end j - start j > max_intron_length ex"
  shows "add_junction j ex = (0, ex) \<and>
         get_new_junction_name (snd (add_junction j ex)) = get_new_junction_name ex"
  using assms by (simp add: add_junction_def junction_qc_def)

text \<open>The junction of length 100 against a minimum intron length of 150.\<close>

theorem rejected_candidate_leaves_store_witness:
  "let ex = \<lparr>min_anchor_length = 8, min_intron_length = 150, max_intron_length = 500000,
             bam = ''NA'', output_file = ''NA'', region = [], junctions = Map.empty\<rparr>;
       j = new_Junction\<lparr>chrom := ''chr1'', start := 1020, end := 1120, thick_start := 1000,
             thick_end := 1150, strand := ''+''\<rparr>
   in end j - start j < min_intron_length ex \<and> add_junction j ex = (0, ex)"
  using rejected_candidate_leaves_store
    [of "new_Junction\<lparr>chrom := ''chr1'', start := 1020, end := 1120, thick_start := 1000,
             thick_end := 1150, strand := ''+''\<rparr>"
        "\<lparr>min_anchor_length = 8, min_intron_length = 150, max_intron_length = 500000,
             bam = ''NA'', output_file = ''NA'', region = [], junctions = Map.empty\<rparr>"]
  by (simp add: Let_def new_Junction_def)

subsection \<open>Records with fewer than two operations\<close>

text \<open>
  C9: for a record with fewer than two CIGAR operations, \<open>parse_alignment_into_junctions\<close>
  returns at once and the map is unchanged; so for a record whose CIGAR is one match of any
  length.
\<close>

theorem short_cigar_no_junctions:
  assumes "length (cigar aln) < 2"
  shows "parse_alignment_into_junctions aln ex = (0, ex) \<and>
         parse_alignment_into_junctions (aln\<lparr>cigar := [(CHR ''M'', L)]\<rparr>) ex = (0, ex)"
  using assms by (simp add: parse_alignment_into_junctions_def Let_def)

theorem short_cigar_no_junctions_witness:
  "let aln = \<lparr>target_name = ''chr1'', pos = 1000, cigar = [(CHR ''M'', 76)],
              aux_XS = Some (CHR ''+'')\<rparr>;
       ex = \<lparr>min_anchor_length = 8, min_intron_length = 70, max_intron_length = 500000,
             bam = ''NA'', output_file = ''NA'', region = [], junctions = Map.empty\<rparr>
   in length (cigar aln) < 2 \<and> parse_alignment_into_junctions aln ex = (0, ex)"
  using short_cigar_no_junctions
    [where aln = "\<lparr>target_name = ''chr1'', pos = 1000, cigar = [(CHR ''M'', 76)],
          aux_XS = Some (CHR ''+'')\<rparr>"
       and ex = "\<lparr>min_anchor_length = 8, min_intron_length = 70, max_intron_length = 500000,
          bam = ''NA'', output_file = ''NA'', region = [], junctions = Map.empty\<rparr>"
       and L = 76]
  by (simp add: Let_def)

subsection \<open>The alignment file named NA\<close>

lemma getopt_loop_bam: "getopt_loop atoi opts ex = Inr ex' \<Longrightarrow> bam ex' = bam ex"
proof (induction opts arbitrary: ex)
  case Nil
  then show ?case by simp
next
  case (Cons a opts)
  obtain c optarg where a: "a = (c, optarg)" by (cases a)
  from Cons.prems show ?case
    unfolding a by (auto split: if_splits dest: Cons.IH)
qed

text \<open>
  C10: when the positional argument is the string \<open>NA\<close>, \<open>parse_options\<close> ends as it does when
  the argument is missing and \<open>bam\<close> holds \<open>NA\<close>, the value the test takes for "not set": with
  the exception of the option loop when the loop throws, and otherwise with the runtime error
  of the final test. No call of \<open>parse_options\<close> returns with \<open>bam\<close> equal to \<open>NA\<close>.
\<close>

theorem NA_argument_like_missing_argument:
  assumes "optind < length argv" and "argv ! optind = ''NA''"
  shows "parse_options atoi argv opts optind ex =
           (case getopt_loop atoi opts ex of
              Inl e \<Rightarrow> Inl e
            | Inr ex' \<Rightarrow> Inl (runtime_error (CHR 0x0A # ''Error parsing inputs!''))) \<and>
         (bam ex = ''NA'' \<longrightarrow>
            parse_options atoi (take optind argv) opts optind ex =
            parse_options atoi argv opts optind ex) \<and>
         (\<forall>argv' opts' optind' ex0 r ex'.
            parse_options atoi argv' opts' optind' ex0 = Inr (r, ex') \<longrightarrow> bam ex' \<noteq> ''NA'')"
proof -
  have supplied: "parse_options atoi argv opts optind ex =
           (case getopt_loop atoi opts ex of
              Inl e \<Rightarrow> Inl e
            | Inr ex' \<Rightarrow> Inl (runtime_error (CHR 0x0A # ''Error parsing inputs!'')))"
    using assms by (simp add: parse_options_def Let_def split: sum.splits)
  have missing: "parse_options atoi (take optind argv) opts optind ex =
           (case getopt_loop atoi opts ex of
              Inl e \<Rightarrow> Inl e
            | Inr ex' \<Rightarrow> Inl (runtime_error (CHR 0x0A # ''Error parsing inputs!'')))"
    if "bam ex = ''NA''"
    using assms that getopt_loop_bam [of atoi opts ex]
    by (auto simp: parse_options_def Let_def split: sum.splits)
  have never: "bam ex' \<noteq> ''NA''"
    if "parse_options atoi argv' opts' optind' ex0 = Inr (r, ex')"
    for argv' opts' optind' ex0 r ex'
    using that
    by (auto simp: parse_options_def Let_def split: sum.splits if_splits prod.splits)
  show ?thesis
  proof (intro conjI allI impI)
    show "parse_options atoi argv opts optind ex =
           (case getopt_loop atoi opts ex of
              Inl e \<Rightarrow> Inl e
            | Inr ex' \<Rightarrow> Inl (runtime_error (CHR 0x0A # ''Error parsing inputs!'')))"
      by (rule supplied)
  next
    assume "bam ex = ''NA''"
    then show "parse_options atoi (take optind argv) opts optind ex =
               parse_options atoi argv opts optind ex"
      using supplied missing by simp
  next
    fix argv' opts' optind' ex0 r ex'
    assume "parse_options atoi argv' opts' optind' ex0 = Inr (r, ex')"
    then show "bam ex' \<noteq> ''NA''" by (rule never)
  qed
qed

theorem NA_argument_like_missing_argument_witness:
  "let argv = [''extract'', ''-a'', ''10'', ''NA''];
       ex = \<lparr>min_anchor_length = 8, min_intron_length = 70, max_intron_length = 500000,
             bam = ''NA'', output_file = ''NA'', region = [], junctions = Map.empty\<rparr>
   in 3 < length argv \<and> argv ! 3 = ''NA'' \<and> bam ex = ''NA'' \<and>
      parse_options (\<lambda>s. 10) argv [(CHR ''a'', ''10'')] 3 ex =
        Inl (runtime_error (CHR 0x0A # ''Error parsing inputs!'')) \<and>
      parse_options (\<lambda>s. 10) (take 3 argv) [(CHR ''a'', ''10'')] 3 ex =
        Inl (runtime_error (CHR 0x0A # ''Error parsing inputs!''))"
  using NA_argument_like_missing_argument
    [of 3 "[''extract'', ''-a'', ''10'', ''NA'']" "\<lambda>s. 10" "[(CHR ''a'', ''10'')]"
        "\<lparr>min_anchor_length = 8, min_intron_length = 70, max_intron_length = 500000,
             bam = ''NA'', output_file = ''NA'', region = [], junctions = Map.empty\<rparr>"]
  by (simp add: Let_def)

end
